theory Spec2Isabelle
  imports Main
begin

section \<open>JavaScript strings and regular expressions\<close>

text \<open>
  \<^verbatim>\<open>Bundle.js\<close> builds two regular expressions at run time: the validator of the
  \<^verbatim>\<open>filters\<close> parameter (line 46) and the pattern the final URL of the store page is
  matched against (line 170). Both use only literals, \<^verbatim>\<open>.\<close>, alternation, \<^verbatim>\<open>?\<close>,
  \<^verbatim>\<open>+\<close> and \<^verbatim>\<open>*\<close>, so whether a string matches is membership in a regular language,
  decided here by derivatives. Strings are byte lists.
\<close>

datatype rexp =
  Zero | One | Atom char | Dot | Anychar | Alt rexp rexp | Seq rexp rexp | Star rexp

fun nullable :: "rexp \<Rightarrow> bool" where
  "nullable Zero = False"
| "nullable One = True"
| "nullable (Atom c) = False"
| "nullable Dot = False"
| "nullable Anychar = False"
| "nullable (Alt r s) = (nullable r \<or> nullable s)"
| "nullable (Seq r s) = (nullable r \<and> nullable s)"
| "nullable (Star r) = True"

text \<open>Constructors that drop \<open>Zero\<close> and \<open>One\<close>, so that derivatives stay small.\<close>

fun alt :: "rexp \<Rightarrow> rexp \<Rightarrow> rexp" where
  "alt Zero r = r"
| "alt r Zero = r"
| "alt r s = Alt r s"

fun seq :: "rexp \<Rightarrow> rexp \<Rightarrow> rexp" where
  "seq Zero r = Zero"
| "seq r Zero = Zero"
| "seq One r = r"
| "seq r s = Seq r s"

text \<open>\<^verbatim>\<open>.\<close> matches every character but a line terminator (line feed, carriage return).\<close>

definition line_terminator :: "char \<Rightarrow> bool" where
  "line_terminator c = (c = CHR 0x0A \<or> c = CHR 0x0D)"

fun deriv :: "char \<Rightarrow> rexp \<Rightarrow> rexp" where
  "deriv c Zero = Zero"
| "deriv c One = Zero"
| "deriv c (Atom a) = (if a = c then One else Zero)"
| "deriv c Dot = (if line_terminator c then Zero else One)"
| "deriv c Anychar = One"
| "deriv c (Alt r s) = alt (deriv c r) (deriv c s)"
| "deriv c (Seq r s) =
     (if nullable r then alt (seq (deriv c r) s) (deriv c s) else seq (deriv c r) s)"
| "deriv c (Star r) = seq (deriv c r) (Star r)"

fun matches :: "rexp \<Rightarrow> string \<Rightarrow> bool" where
  "matches r [] = nullable r"
| "matches r (c # cs) = matches (deriv c r) cs"

fun literal :: "string \<Rightarrow> rexp" where
  "literal [] = One"
| "literal (c # cs) = Seq (Atom c) (literal cs)"

fun alternatives :: "rexp list \<Rightarrow> rexp" where
  "alternatives [] = Zero"
| "alternatives [r] = r"
| "alternatives (r # rs) = Alt r (alternatives rs)"

definition Opt :: "rexp \<Rightarrow> rexp" where
  "Opt r = Alt r One"

definition Plus :: "rexp \<Rightarrow> rexp" where
  "Plus r = Seq r (Star r)"

text \<open>
  A pattern written \<^verbatim>\<open>^...$\<close> must match the whole string; a pattern without
  anchors matches when it occurs anywhere in the string.
\<close>

definition test_anchored :: "rexp \<Rightarrow> string \<Rightarrow> bool" where
  "test_anchored r s = matches r s"

definition test_unanchored :: "rexp \<Rightarrow> string \<Rightarrow> bool" where
  "test_unanchored r s = matches (Seq (Star Anychar) (Seq r (Star Anychar))) s"

text \<open>\<^verbatim>\<open>String.prototype.split\<close> on one separator character.\<close>

fun str_split :: "char \<Rightarrow> string \<Rightarrow> string list" where
  "str_split sep [] = [[]]"
| "str_split sep (c # cs) =
     (if c = sep then [] # str_split sep cs
      else (case str_split sep cs of
              [] \<Rightarrow> [[c]]
            | piece # pieces \<Rightarrow> (c # piece) # pieces))"

text \<open>\<^verbatim>\<open>Array.prototype.join\<close>.\<close>

fun str_join :: "string \<Rightarrow> string list \<Rightarrow> string" where
  "str_join sep [] = []"
| "str_join sep [x] = x"
| "str_join sep (x # xs) = x @ sep @ str_join sep xs"

text \<open>An integer written in decimal, as a template literal writes it.\<close>

function nat_to_string :: "nat \<Rightarrow> string" where
  "nat_to_string n =
     (if n < 10 then [''0123456789'' ! n]
      else nat_to_string (n div 10) @ [''0123456789'' ! (n mod 10)])"
  by pat_completeness auto
termination
  by (relation "measure id") auto

declare nat_to_string.simps [simp del]

definition Number_toString :: "int \<Rightarrow> string" where
  "Number_toString i =
     (if i < 0 then CHR ''-'' # nat_to_string (nat (- i)) else nat_to_string (nat i))"

text \<open>
  A number as \<^verbatim>\<open>parseInt\<close> returns it: an integer, or \<^verbatim>\<open>NaN\<close> when the string does not
  begin with one.
\<close>

datatype js_number = Finite int | NaN

definition is_digit :: "char \<Rightarrow> bool" where
  "is_digit c = (c \<in> set ''0123456789'')"

definition digit_value :: "char \<Rightarrow> nat" where
  "digit_value c = length (takeWhile (\<lambda>d. d \<noteq> c) ''0123456789'')"

definition digits_value :: "string \<Rightarrow> nat" where
  "digits_value ds = foldl (\<lambda>n c. 10 * n + digit_value c) 0 ds"

text \<open>
  \<^verbatim>\<open>parseInt\<close> with one argument, on the strings it is given here, which hold no white
  space and no \<^verbatim>\<open>0x\<close>: an optional sign, then the longest run of decimal digits; \<^verbatim>\<open>NaN\<close>
  when that run is empty.
\<close>

definition parseInt :: "string \<Rightarrow> js_number" where
  "parseInt s =
     (let negative = (s \<noteq> [] \<and> hd s = CHR ''-'');
          signed = (s \<noteq> [] \<and> (hd s = CHR ''-'' \<or> hd s = CHR ''+''));
          ds = takeWhile is_digit (if signed then tl s else s)
      in if ds = [] then NaN
         else Finite (if negative then - int (digits_value ds) else int (digits_value ds)))"

section \<open>The store\<close>

text \<open>
  Modelled from the spec: the schema of the three tables is not among the sources. The
  spec has \<^verbatim>\<open>games__bundle\<close> keyed by \<^verbatim>\<open>bundle_id\<close>, with the columns \<^verbatim>\<open>removed\<close>,
  \<^verbatim>\<open>last_update\<close> (epoch seconds) and \<^verbatim>\<open>queued_for_update\<close>; \<^verbatim>\<open>games__bundle_name\<close> keyed
  by \<^verbatim>\<open>bundle_id\<close>; \<^verbatim>\<open>games__bundle_app\<close> keyed by the pair (\<^verbatim>\<open>bundle_id\<close>, \<^verbatim>\<open>app_id\<close>).
  The keyed tables are maps; the pair table is the list of its rows, in which
  \<^verbatim>\<open>INSERT IGNORE\<close> never puts a pair twice.
\<close>

record bundle_row =
  b_removed :: bool
  b_last_update :: int
  b_queued_for_update :: bool

record tables =
  games_bundle :: "int \<rightharpoonup> bundle_row"
  games_bundle_name :: "int \<rightharpoonup> string"
  games_bundle_app :: "(int \<times> int) list"

text \<open>Every statement \<^verbatim>\<open>Bundle.js\<close> sends over the connection.\<close>

datatype statement =
  Select_bundle bool bool "int list"
| Select_bundle_app "int list"
| Insert_queue "int list"
| Upsert_bundle int bundle_row
| Insert_name int string
| Insert_apps int "int list"
| Begin_transaction
| Commit
| Rollback

datatype error =
  Validation_error string
| Steam_error nat
| Store_error statement

text \<open>
  The connection: the tables, the tables as they were when the open transaction began,
  the statements sent so far, and the values the schema gives to the columns an
  \<^verbatim>\<open>INSERT\<close> does not name (the schema is not part of the sources, so they are left
  open; a \<^verbatim>\<open>NULL\<close> in a column is outside the model).
\<close>

record db =
  tables :: tables
  saved :: "tables option"
  log :: "statement list"
  column_defaults :: bundle_row

text \<open>
  \<^verbatim>\<open>INSERT INTO games__bundle (bundle_id, queued_for_update) VALUES (id, TRUE), ...
  ON DUPLICATE KEY UPDATE queued_for_update = VALUES(queued_for_update)\<close>, one value
  tuple after the other.
\<close>

definition queue_one :: "bundle_row \<Rightarrow> (int \<rightharpoonup> bundle_row) \<Rightarrow> int \<Rightarrow> (int \<rightharpoonup> bundle_row)" where
  "queue_one dflt t i =
     (case t i of
        None \<Rightarrow> t(i \<mapsto> dflt\<lparr>b_queued_for_update := True\<rparr>)
      | Some r \<Rightarrow> t(i \<mapsto> r\<lparr>b_queued_for_update := True\<rparr>))"

text \<open>\<^verbatim>\<open>INSERT IGNORE INTO games__bundle_app (bundle_id, app_id) VALUES ...\<close>\<close>

definition insert_app :: "int \<Rightarrow> (int \<times> int) list \<Rightarrow> int \<Rightarrow> (int \<times> int) list" where
  "insert_app i rows a = (if (i, a) \<in> set rows then rows else rows @ [(i, a)])"

fun exec :: "bundle_row \<Rightarrow> statement \<Rightarrow> tables \<Rightarrow> tables" where
  "exec dflt (Insert_queue ids) t =
     t\<lparr>games_bundle := foldl (queue_one dflt) (games_bundle t) ids\<rparr>"
| "exec dflt (Upsert_bundle i r) t =
     t\<lparr>games_bundle := (games_bundle t)(i \<mapsto> r)\<rparr>"
| "exec dflt (Insert_name i n) t =
     (case games_bundle_name t i of
        None \<Rightarrow> t\<lparr>games_bundle_name := (games_bundle_name t)(i \<mapsto> n)\<rparr>
      | Some _ \<Rightarrow> t)"
| "exec dflt (Insert_apps i as) t =
     t\<lparr>games_bundle_app := foldl (insert_app i) (games_bundle_app t) as\<rparr>"
| "exec dflt _ t = t"

text \<open>A statement with an empty \<^verbatim>\<open>IN ()\<close> or \<^verbatim>\<open>VALUES\<close> list is a syntax error.\<close>

fun malformed :: "statement \<Rightarrow> bool" where
  "malformed (Select_bundle _ _ ids) = (ids = [])"
| "malformed (Select_bundle_app ids) = (ids = [])"
| "malformed (Insert_queue ids) = (ids = [])"
| "malformed (Insert_apps _ as) = (as = [])"
| "malformed _ = False"

text \<open>
  Modelled from the spec: \<^verbatim>\<open>Pool.query\<close> (\<^verbatim>\<open>class/Connection.js\<close>) is not among the
  sources. The spec has store errors propagate unchanged. A statement fails when it is
  malformed or when the environment makes it fail: \<open>fails n\<close> says whether the \<open>n\<close>-th
  statement sent over the connection fails. A failed statement changes no table. The
  rows a \<^verbatim>\<open>SELECT\<close> returns are computed by the caller from the tables the statement
  leaves.
\<close>

definition Pool_query :: "(nat \<Rightarrow> bool) \<Rightarrow> statement \<Rightarrow> db \<Rightarrow> (error + unit) \<times> db" where
  "Pool_query fails st d =
     (let d1 = d\<lparr>log := log d @ [st]\<rparr> in
      if fails (length (log d)) \<or> malformed st then (Inl (Store_error st), d1)
      else (Inr (), d1\<lparr>tables := exec (column_defaults d) st (tables d)\<rparr>))"

text \<open>
  Modelled from the spec: \<^verbatim>\<open>Pool.beginTransaction\<close>, \<^verbatim>\<open>Pool.commit\<close> and \<^verbatim>\<open>Pool.rollback\<close>
  are not among the sources. The spec has the failure of any step roll the entire
  transaction back, with no partial write observable: the connection keeps the tables
  as they were when the transaction began, and the rollback, which does not itself
  fail, restores them.
\<close>

definition Pool_beginTransaction :: "(nat \<Rightarrow> bool) \<Rightarrow> db \<Rightarrow> (error + unit) \<times> db" where
  "Pool_beginTransaction fails d =
     (let d1 = d\<lparr>log := log d @ [Begin_transaction]\<rparr> in
      if fails (length (log d)) then (Inl (Store_error Begin_transaction), d1)
      else (Inr (), d1\<lparr>saved := Some (tables d)\<rparr>))"

definition Pool_commit :: "(nat \<Rightarrow> bool) \<Rightarrow> db \<Rightarrow> (error + unit) \<times> db" where
  "Pool_commit fails d =
     (let d1 = d\<lparr>log := log d @ [Commit]\<rparr> in
      if fails (length (log d)) then (Inl (Store_error Commit), d1)
      else (Inr (), d1\<lparr>saved := None\<rparr>))"

definition Pool_rollback :: "db \<Rightarrow> db" where
  "Pool_rollback d =
     d\<lparr>tables := (case saved d of None \<Rightarrow> tables d | Some t \<Rightarrow> t),
       saved := None,
       log := log d @ [Rollback]\<rparr>"

text \<open>
  Modelled from the spec: \<^verbatim>\<open>Pool.transaction\<close> is not among the sources. The spec has
  the queue write run in a transaction of its own; the callback runs between begin and
  commit, and an error rolls back and is raised again, as in the \<^verbatim>\<open>try\<close> of \<^verbatim>\<open>fetch\<close>.
\<close>

definition Pool_transaction ::
  "(nat \<Rightarrow> bool) \<Rightarrow> (db \<Rightarrow> (error + unit) \<times> db) \<Rightarrow> db \<Rightarrow> (error + unit) \<times> db" where
  "Pool_transaction fails callback d =
     (case Pool_beginTransaction fails d of
        (Inl e, d1) \<Rightarrow> (Inl e, d1)
      | (Inr _, d1) \<Rightarrow>
          (case callback d1 of
             (Inl e, d2) \<Rightarrow> (Inl e, Pool_rollback d2)
           | (Inr _, d2) \<Rightarrow>
               (case Pool_commit fails d2 of
                  (Inl e, d3) \<Rightarrow> (Inl e, Pool_rollback d3)
                | (Inr _, d3) \<Rightarrow> (Inr (), d3))))"

section \<open>\<^verbatim>\<open>Bundle.get\<close>\<close>

text \<open>\<^verbatim>\<open>req.query\<close>: the two parameters \<^verbatim>\<open>get\<close> reads, each possibly missing.\<close>

record query =
  q_filters :: "string option"
  q_bundle_filters :: "string option"

text \<open>Line 39: \<^verbatim>\<open>req.query.filters || req.query.bundle_filters || ''\<close>.\<close>

definition truthy_string :: "string option \<Rightarrow> bool" where
  "truthy_string v = (case v of None \<Rightarrow> False | Some s \<Rightarrow> s \<noteq> [])"

definition params_filters :: "query \<Rightarrow> string" where
  "params_filters q =
     (if truthy_string (q_filters q) then the (q_filters q)
      else if truthy_string (q_bundle_filters q) then the (q_bundle_filters q)
      else [])"

text \<open>Lines 31 to 35: the keys of \<^verbatim>\<open>columns\<close>, then \<^verbatim>\<open>'apps'\<close>.\<close>

definition columnKeys :: "string list" where
  "columnKeys = [''name'', ''removed'', ''apps'']"

text \<open>Lines 43 to 46: the message and the pattern \<^verbatim>\<open>^(((name|removed|apps),?)+)?$\<close>.\<close>

definition validator_message :: string where
  "validator_message =
     ''Must be a comma-separated list containing the following values: ''
       @ str_join '', '' columnKeys"

definition validator_regex :: rexp where
  "validator_regex =
     Opt (Plus (Seq (alternatives (map literal columnKeys)) (Opt (Atom CHR '',''))))"

text \<open>
  Modelled from the spec: \<^verbatim>\<open>Utils.validateParams\<close> (\<^verbatim>\<open>class/Utils.js\<close>) is not among the
  sources. The spec has a filter string that does not match the pattern fail validation
  with an error that names the allowed list.
\<close>

definition validateParams :: "string \<Rightarrow> error + unit" where
  "validateParams params =
     (if test_anchored validator_regex params then Inr ()
      else Inl (Validation_error validator_message))"

text \<open>Lines 51 to 63: which of \<^verbatim>\<open>name\<close>, \<^verbatim>\<open>removed\<close>, \<^verbatim>\<open>apps\<close> stay in \<^verbatim>\<open>filters\<close>.\<close>

record filter_set =
  f_name :: bool
  f_removed :: bool
  f_apps :: bool

definition make_filters :: "string \<Rightarrow> filter_set" where
  "make_filters params =
     (if params \<noteq> [] then
        (let filterKeys = str_split CHR '','' params in
         \<lparr>f_name = ''name'' \<in> set filterKeys,
          f_removed = ''removed'' \<in> set filterKeys,
          f_apps = ''apps'' \<in> set filterKeys\<rparr>)
      else \<lparr>f_name = True, f_removed = True, f_apps = True\<rparr>)"

text \<open>
  A row of the first query (lines 66 to 86). \<^verbatim>\<open>name\<close> and \<^verbatim>\<open>removed\<close> are selected
  only when they are still in \<^verbatim>\<open>columns\<close>; \<open>None\<close> is JavaScript's \<^verbatim>\<open>undefined\<close>.
\<close>

record row =
  row_bundle_id :: int
  row_name :: "string option"
  row_removed :: "bool option"
  row_last_update :: int
  row_queued_for_update :: bool

text \<open>
  The rows for one identifier: none when \<^verbatim>\<open>games__bundle\<close> has no row for it, and,
  under the \<^verbatim>\<open>INNER JOIN\<close> with \<^verbatim>\<open>games__bundle_name\<close>, none when that table has no
  row for it either.
\<close>

definition select_row :: "filter_set \<Rightarrow> tables \<Rightarrow> int \<Rightarrow> row option" where
  "select_row filters t i =
     (case games_bundle t i of
        None \<Rightarrow> None
      | Some b \<Rightarrow>
          (if f_name filters then
             (case games_bundle_name t i of
                None \<Rightarrow> None
              | Some n \<Rightarrow>
                  Some \<lparr>row_bundle_id = i, row_name = Some n,
                        row_removed = (if f_removed filters then Some (b_removed b) else None),
                        row_last_update = b_last_update b,
                        row_queued_for_update = b_queued_for_update b\<rparr>)
           else
             Some \<lparr>row_bundle_id = i, row_name = None,
                   row_removed = (if f_removed filters then Some (b_removed b) else None),
                   row_last_update = b_last_update b,
                   row_queued_for_update = b_queued_for_update b\<rparr>))"

text \<open>
  \<^verbatim>\<open>WHERE g_b.bundle_id IN (ids)\<close>: each stored identifier among \<open>ids\<close> once, here in the
  order of the primary key (SQL leaves the order open).
\<close>

definition select_bundle :: "filter_set \<Rightarrow> int list \<Rightarrow> tables \<Rightarrow> row list" where
  "select_bundle filters ids t = List.map_filter (select_row filters t) (sort (remdups ids))"

text \<open>
  The second query (lines 90 to 98): one row per identifier among \<open>ids\<close> that has rows
  in \<^verbatim>\<open>games__bundle_app\<close>, with \<^verbatim>\<open>GROUP_CONCAT(app_id)\<close>: the application identifiers
  of the group in decimal, separated by commas, cut after \<^verbatim>\<open>group_concat_max_len\<close>
  bytes. Nothing in \<^verbatim>\<open>Bundle.js\<close> sets that variable, so it has the server's default,
  1024.
\<close>

definition apps_of :: "tables \<Rightarrow> int \<Rightarrow> int list" where
  "apps_of t i = map snd (filter (\<lambda>r. fst r = i) (games_bundle_app t))"

definition group_concat_max_len :: nat where
  "group_concat_max_len = 1024"

definition GROUP_CONCAT :: "int list \<Rightarrow> string" where
  "GROUP_CONCAT values = take group_concat_max_len (str_join '','' (map Number_toString values))"

definition select_bundle_app :: "int list \<Rightarrow> tables \<Rightarrow> (int \<times> string) list" where
  "select_bundle_app ids t =
     map (\<lambda>i. (i, GROUP_CONCAT (apps_of t i)))
       (filter (\<lambda>i. apps_of t i \<noteq> []) (sort (remdups ids)))"

text \<open>
  Modelled from the spec: \<^verbatim>\<open>Utils.getQueryMap\<close> is not among the sources. The spec has
  it build a lookup keyed by identifier.
\<close>

definition getQueryMap :: "(int \<times> 'a) list \<Rightarrow> (int \<rightharpoonup> 'a)" where
  "getQueryMap rows = map_of rows"

text \<open>
  Modelled from the spec: \<^verbatim>\<open>Utils.isSet\<close> is not among the sources. The spec reads
  \<^verbatim>\<open>!Utils.isSet(row.name)\<close> as "the name field is absent/empty".
\<close>

definition isSet :: "string option \<Rightarrow> bool" where
  "isSet v = (case v of None \<Rightarrow> False | Some s \<Rightarrow> s \<noteq> [])"

text \<open>
  \<^verbatim>\<open>Utils.formatDate\<close> is not among the sources either. No property here depends on
  the text it produces, so the projection records the arguments of the call.
\<close>

datatype date_text = FormatDate int bool

text \<open>The projection; \<open>None\<close> is a field the object does not have.\<close>

record projection =
  bundle_id :: int
  bundle_name :: "string option"
  bundle_removed :: "bool option"
  bundle_apps :: "js_number list option"
  bundle_last_update :: date_text
  bundle_queued_for_update :: bool

text \<open>
  Lines 122 to 128: whether the row is pushed to \<^verbatim>\<open>to_queue\<close>. \<^verbatim>\<open>!row.removed\<close> is true
  for \<^verbatim>\<open>undefined\<close> as for \<^verbatim>\<open>false\<close>.
\<close>

definition requeue :: "int \<Rightarrow> row \<Rightarrow> bool" where
  "requeue now row =
     (\<not> row_queued_for_update row \<and>
      (let lastUpdate = row_last_update row;
           differenceInSeconds = now - lastUpdate
       in differenceInSeconds > 60 * 60 * 24 * 6 \<or>
          (\<not> isSet (row_name row) \<and> row_removed row \<noteq> Some True \<and>
           differenceInSeconds > 60 * 60 * 24)))"

text \<open>Lines 107 to 121 and 129: the projection of one row.\<close>

definition project :: "filter_set \<Rightarrow> (int \<rightharpoonup> string) \<Rightarrow> int \<Rightarrow> row \<Rightarrow> projection" where
  "project filters appMap now row =
     \<lparr>bundle_id = row_bundle_id row,
      bundle_name = (if f_name filters then row_name row else None),
      bundle_removed = (if f_removed filters then Some (row_removed row = Some True) else None),
      bundle_apps =
        (if f_apps filters then
           Some (case appMap (row_bundle_id row) of
                   None \<Rightarrow> []
                 | Some apps \<Rightarrow> map parseInt (str_split CHR '','' apps))
         else None),
      bundle_last_update = FormatDate (row_last_update row * 1000) True,
      bundle_queued_for_update = (row_queued_for_update row \<or> requeue now row)\<rparr>"

text \<open>The loop of lines 106 to 135: \<^verbatim>\<open>bundles\<close>, \<^verbatim>\<open>found\<close> and \<^verbatim>\<open>to_queue\<close>.\<close>

fun rows_loop ::
  "filter_set \<Rightarrow> (int \<rightharpoonup> string) \<Rightarrow> int \<Rightarrow> row list \<Rightarrow> projection list \<times> int list \<times> int list" where
  "rows_loop filters appMap now [] = ([], [], [])"
| "rows_loop filters appMap now (row # rows) =
     (case rows_loop filters appMap now rows of
        (bundles, found, to_queue) \<Rightarrow>
          (project filters appMap now row # bundles,
           row_bundle_id row # found,
           (if requeue now row then row_bundle_id row # to_queue else to_queue)))"

text \<open>Lines 88 to 100: the second query is sent only when \<^verbatim>\<open>apps\<close> is included.\<close>

definition load_appMap ::
  "(nat \<Rightarrow> bool) \<Rightarrow> filter_set \<Rightarrow> int list \<Rightarrow> db \<Rightarrow> (error + (int \<rightharpoonup> string)) \<times> db" where
  "load_appMap fails filters ids d =
     (if f_apps filters then
        (case Pool_query fails (Select_bundle_app ids) d of
           (Inl e, d1) \<Rightarrow> (Inl e, d1)
         | (Inr _, d1) \<Rightarrow> (Inr (getQueryMap (select_bundle_app ids (tables d1))), d1))
      else (Inr Map.empty, d))"

text \<open>Lines 136 to 149: the identifiers not found join \<^verbatim>\<open>to_queue\<close>, which is written.\<close>

definition write_queue ::
  "(nat \<Rightarrow> bool) \<Rightarrow> int list \<Rightarrow> db \<Rightarrow> (error + unit) \<times> db" where
  "write_queue fails to_queue d =
     (if length to_queue > 0 then
        Pool_transaction fails (Pool_query fails (Insert_queue to_queue)) d
      else (Inr (), d))"

definition get ::
  "(nat \<Rightarrow> bool) \<Rightarrow> int \<Rightarrow> query \<Rightarrow> int list \<Rightarrow> db \<Rightarrow> (error + projection list) \<times> db" where
  "get fails now q ids d =
     (let params = params_filters q in
      case validateParams params of
        Inl e \<Rightarrow> (Inl e, d)
      | Inr _ \<Rightarrow>
          (let filters = make_filters params in
           case Pool_query fails (Select_bundle (f_name filters) (f_removed filters) ids) d of
             (Inl e, d1) \<Rightarrow> (Inl e, d1)
           | (Inr _, d1) \<Rightarrow>
               (let rows = select_bundle filters ids (tables d1) in
                case load_appMap fails filters ids d1 of
                  (Inl e, d2) \<Rightarrow> (Inl e, d2)
                | (Inr appMap, d2) \<Rightarrow>
                    (case rows_loop filters appMap now rows of
                       (bundles, found, to_queue) \<Rightarrow>
                         (let notFound = filter (\<lambda>id. id \<notin> set found) ids in
                          case write_queue fails (to_queue @ notFound) d2 of
                            (Inl e, d3) \<Rightarrow> (Inl e, d3)
                          | (Inr _, d3) \<Rightarrow> (Inr bundles, d3))))))"

section \<open>\<^verbatim>\<open>Bundle.fetch\<close>\<close>

text \<open>
  What \<^verbatim>\<open>fetch\<close> reads of the response of \<^verbatim>\<open>Request.get\<close>: the parsed page, if any
  (\<^verbatim>\<open>storeResponse.html\<close>), and the final URL. Of the page it reads the text of the
  first \<^verbatim>\<open>.pageheader\<close> element, if there is one, and \<^verbatim>\<open>parseInt\<close> of the
  \<^verbatim>\<open>data-ds-appid\<close> attribute of every element that has one, in document order.
\<close>

record page =
  pageheader :: "string option"
  ds_appids :: "int list"

record response =
  html :: "page option"
  url :: string

text \<open>
  Line 170. In the template literal \<^verbatim>\<open>\.\<close> and \<^verbatim>\<open>\/\<close> lose their backslash, so the
  pattern is \<^verbatim>\<open>store.steampowered.com.*?/bundle/ID\<close> with every dot a wildcard.
\<close>

definition url_regex :: "int \<Rightarrow> rexp" where
  "url_regex bundleId =
     Seq (literal ''store'') (Seq Dot (Seq (literal ''steampowered'') (Seq Dot
       (Seq (literal ''com'') (Seq (Star Dot)
         (Seq (literal ''/bundle/'') (literal (Number_toString bundleId))))))))"

text \<open>Lines 189 to 225, between \<^verbatim>\<open>beginTransaction\<close> and the \<^verbatim>\<open>catch\<close>.\<close>

definition upsert ::
  "(nat \<Rightarrow> bool) \<Rightarrow> int \<Rightarrow> bundle_row \<Rightarrow> string option \<Rightarrow> int list \<Rightarrow> db \<Rightarrow> (error + unit) \<times> db" where
  "upsert fails bundleId bundle bundleName apps d =
     (case Pool_query fails (Upsert_bundle bundleId bundle) d of
        (Inl e, d1) \<Rightarrow> (Inl e, d1)
      | (Inr _, d1) \<Rightarrow>
          (case (if truthy_string bundleName
                 then Pool_query fails (Insert_name bundleId (the bundleName)) d1
                 else (Inr (), d1)) of
             (Inl e, d2) \<Rightarrow> (Inl e, d2)
           | (Inr _, d2) \<Rightarrow>
               (case (if length apps > 0
                      then Pool_query fails (Insert_apps bundleId apps) d2
                      else (Inr (), d2)) of
                  (Inl e, d3) \<Rightarrow> (Inl e, d3)
                | (Inr _, d3) \<Rightarrow> Pool_commit fails d3)))"

definition fetch ::
  "(nat \<Rightarrow> bool) \<Rightarrow> int \<Rightarrow> int \<Rightarrow> response \<Rightarrow> db \<Rightarrow> (error + unit) \<times> db" where
  "fetch fails now bundleId storeResponse d =
     (case html storeResponse of
        None \<Rightarrow> (Inl (Steam_error 500), d)
      | Some page \<Rightarrow>
          (let isStoreResponseOk = (pageheader page \<noteq> None);
               removed = (\<not> test_unanchored (url_regex bundleId) (url storeResponse));
               bundleName = (if isStoreResponseOk \<and> \<not> removed then pageheader page else None);
               bundle = \<lparr>b_removed = removed, b_last_update = now,
                         b_queued_for_update = False\<rparr>;
               apps = (if isStoreResponseOk \<and> \<not> removed then ds_appids page else [])
           in case Pool_beginTransaction fails d of
                (Inl e, d1) \<Rightarrow> (Inl e, d1)
              | (Inr _, d1) \<Rightarrow>
                  (case upsert fails bundleId bundle bundleName apps d1 of
                     (Inl e, d2) \<Rightarrow> (Inl e, Pool_rollback d2)
                   | (Inr _, d2) \<Rightarrow> (Inr (), d2))))"

section \<open>Observations and examples\<close>

text \<open>The statements a call sent: those the log gained between its two states.\<close>

definition issued :: "db \<Rightarrow> db \<Rightarrow> statement list" where
  "issued d d' = drop (length (log d)) (log d')"

text \<open>The identifiers of the queue writes among some statements.\<close>

fun queue_written :: "statement list \<Rightarrow> int list" where
  "queue_written [] = []"
| "queue_written (Insert_queue ids # sts) = ids @ queue_written sts"
| "queue_written (_ # sts) = queue_written sts"

text \<open>
  What \<^verbatim>\<open>get\<close> hands to the queue write and the lookup it builds from the second
  query, as functions of the tables it reads.
\<close>

definition to_queue_of :: "int \<Rightarrow> filter_set \<Rightarrow> int list \<Rightarrow> tables \<Rightarrow> int list" where
  "to_queue_of now filters ids t =
     (let rows = select_bundle filters ids t in
      map row_bundle_id (filter (requeue now) rows)
        @ filter (\<lambda>id. id \<notin> set (map row_bundle_id rows)) ids)"

definition appMap_of :: "filter_set \<Rightarrow> int list \<Rightarrow> tables \<Rightarrow> (int \<rightharpoonup> string)" where
  "appMap_of filters ids t =
     (if f_apps filters then getQueryMap (select_bundle_app ids t) else Map.empty)"

text \<open>An environment in which no statement fails.\<close>

definition no_failure :: "nat \<Rightarrow> bool" where
  "no_failure n = False"

text \<open>
  A store with four bundles, all last updated at second 1000: bundle 1 has a name and
  two applications, bundle 2 is removed and has neither, bundle 3 has a name and is
  queued, bundle 5 has no name. Bundles 4 and 42 are unknown.
\<close>

definition shop :: db where
  "shop =
     \<lparr>tables =
        \<lparr>games_bundle =
           [1 \<mapsto> \<lparr>b_removed = False, b_last_update = 1000, b_queued_for_update = False\<rparr>,
            2 \<mapsto> \<lparr>b_removed = True, b_last_update = 1000, b_queued_for_update = False\<rparr>,
            3 \<mapsto> \<lparr>b_removed = False, b_last_update = 1000, b_queued_for_update = True\<rparr>,
            5 \<mapsto> \<lparr>b_removed = False, b_last_update = 1000, b_queued_for_update = False\<rparr>],
         games_bundle_name = [1 \<mapsto> ''Alpha'', 3 \<mapsto> ''Gamma''],
         games_bundle_app = [(1, 10), (1, 20)]\<rparr>,
      saved = None,
      log = [],
      column_defaults = \<lparr>b_removed = False, b_last_update = 0, b_queued_for_update = False\<rparr>\<rparr>"

definition q_default :: query where
  "q_default = \<lparr>q_filters = None, q_bundle_filters = None\<rparr>"

definition q_removed :: query where
  "q_removed = \<lparr>q_filters = Some ''removed'', q_bundle_filters = None\<rparr>"

definition q_name :: query where
  "q_name = \<lparr>q_filters = Some ''name'', q_bundle_filters = None\<rparr>"

definition q_name_removed :: query where
  "q_name_removed = \<lparr>q_filters = Some ''removed,name'', q_bundle_filters = None\<rparr>"

definition q_nameremoved :: query where
  "q_nameremoved = \<lparr>q_filters = Some ''nameremoved'', q_bundle_filters = None\<rparr>"

definition q_bogus :: query where
  "q_bogus = \<lparr>q_filters = Some ''name,bogus'', q_bundle_filters = None\<rparr>"

definition q_apps :: query where
  "q_apps = \<lparr>q_filters = Some ''apps'', q_bundle_filters = None\<rparr>"


text \<open>
  The statements that read, open or close a transaction, or write the queue: all but
  the three writes of \<^verbatim>\<open>fetch\<close>.
\<close>

fun read_or_queue :: "statement \<Rightarrow> bool" where
  "read_or_queue (Upsert_bundle _ _) = False"
| "read_or_queue (Insert_name _ _) = False"
| "read_or_queue (Insert_apps _ _) = False"
| "read_or_queue _ = True"


text \<open>
  Three responses for bundle 42: its page, a redirect to the front page of the store,
  and a response without content.
\<close>

definition page_ok :: response where
  "page_ok =
     \<lparr>html = Some \<lparr>pageheader = Some ''Alpha Bundle'', ds_appids = [10, 20, 10]\<rparr>,
      url = ''https://store.steampowered.com/bundle/42/Alpha_Bundle/''\<rparr>"

definition page_redirected :: response where
  "page_redirected =
     \<lparr>html = Some \<lparr>pageheader = Some ''Welcome'', ds_appids = [100]\<rparr>,
      url = ''https://store.steampowered.com/''\<rparr>"


text \<open>A store in which bundle 42 is queued and has a name and two applications.\<close>

definition stale :: db where
  "stale =
     \<lparr>tables =
        \<lparr>games_bundle =
           [42 \<mapsto> \<lparr>b_removed = False, b_last_update = 1000, b_queued_for_update = True\<rparr>],
         games_bundle_name = [42 \<mapsto> ''Old Bundle''],
         games_bundle_app = [(42, 7), (42, 8)]\<rparr>,
      saved = None,
      log = [],
      column_defaults = \<lparr>b_removed = False, b_last_update = 0, b_queued_for_update = False\<rparr>\<rparr>"

section \<open>Properties of \<^verbatim>\<open>Bundle.get\<close>\<close>

lemmas get_defs =
  get_def params_filters_def truthy_string_def validateParams_def test_anchored_def
  validator_regex_def columnKeys_def Opt_def Plus_def make_filters_def Pool_query_def
  select_bundle_def select_row_def List.map_filter_simps load_appMap_def getQueryMap_def
  select_bundle_app_def apps_of_def GROUP_CONCAT_def group_concat_max_len_def
  Number_toString_def nat_to_string.simps parseInt_def is_digit_def digit_value_def
  digits_value_def write_queue_def Pool_transaction_def
  Pool_beginTransaction_def Pool_commit_def Pool_rollback_def project_def requeue_def
  isSet_def queue_one_def Let_def no_failure_def issued_def

lemma rows_loop_eq:
  "rows_loop filters appMap now rows =
     (map (project filters appMap now) rows, map row_bundle_id rows,
      map row_bundle_id (filter (requeue now) rows))"
  by (induction rows) auto

lemma load_appMap_Inr:
  "load_appMap fails filters ids d = (Inr appMap, d') \<Longrightarrow>
     appMap = appMap_of filters ids (tables d) \<and> tables d' = tables d \<and> saved d' = saved d
     \<and> column_defaults d' = column_defaults d
     \<and> log d' = log d @ (if f_apps filters then [Select_bundle_app ids] else [])"
  by (auto simp: load_appMap_def appMap_of_def Pool_query_def Let_def split: if_splits)

lemma write_queue_Inr:
  "write_queue fails tq d = (Inr u, d') \<Longrightarrow>
     tables d' = (if tq = [] then tables d
                  else exec (column_defaults d) (Insert_queue tq) (tables d))
     \<and> log d' = log d @ (if tq = [] then [] else [Begin_transaction, Insert_queue tq, Commit])"
  by (auto simp: write_queue_def Pool_transaction_def Pool_query_def Pool_beginTransaction_def
      Pool_commit_def Let_def split: if_splits)

text \<open>A call of \<^verbatim>\<open>get\<close> that returns: its result, its effect and its statements.\<close>

lemma get_Inr:
  assumes "get fails now q ids d = (Inr bundles, d')"
  defines "filters \<equiv> make_filters (params_filters q)"
  shows "bundles = map (project filters (appMap_of filters ids (tables d)) now)
                    (select_bundle filters ids (tables d))"
    and "tables d' =
          (if to_queue_of now filters ids (tables d) = [] then tables d
           else exec (column_defaults d)
                  (Insert_queue (to_queue_of now filters ids (tables d))) (tables d))"
    and "log d' = log d @ [Select_bundle (f_name filters) (f_removed filters) ids]
          @ (if f_apps filters then [Select_bundle_app ids] else [])
          @ (if to_queue_of now filters ids (tables d) = [] then []
             else [Begin_transaction,
                   Insert_queue (to_queue_of now filters ids (tables d)), Commit])"
    and "ids \<noteq> []" and "validateParams (params_filters q) = Inr ()"
  using assms
  unfolding get_def Let_def
  by (auto simp: rows_loop_eq to_queue_of_def Let_def Pool_query_def
      dest!: load_appMap_Inr write_queue_Inr split: sum.splits prod.splits if_splits)

lemma queue_written_get:
  assumes "get fails now q ids d = (Inr bundles, d')"
  shows "queue_written (issued d d')
           = to_queue_of now (make_filters (params_filters q)) ids (tables d)"
  using get_Inr(3)[OF assms] by (simp add: issued_def)

lemma select_row_id: "select_row filters t i = Some row \<Longrightarrow> row_bundle_id row = i"
  by (auto simp: select_row_def split: option.splits if_splits)

lemma set_select_bundle:
  "set (select_bundle filters ids t) = {row. \<exists>i \<in> set ids. select_row filters t i = Some row}"
proof -
  have "set (List.map_filter f xs) = {y. \<exists>x \<in> set xs. f x = Some y}"
    for f :: "int \<Rightarrow> row option" and xs
    by (induction xs) (auto simp: List.map_filter_simps split: option.splits)
  then show ?thesis by (simp add: select_bundle_def)
qed

lemma select_bundle_ids:
  "map row_bundle_id (select_bundle filters ids t)
     = filter (\<lambda>i. select_row filters t i \<noteq> None) (sort (remdups ids))"
proof -
  have "map row_bundle_id (List.map_filter (select_row filters t) xs)
          = filter (\<lambda>i. select_row filters t i \<noteq> None) xs" for xs
    by (induction xs) (auto simp: List.map_filter_simps select_row_id split: option.splits)
  then show ?thesis by (simp add: select_bundle_def)
qed

lemma select_bundle_unique:
  assumes "r1 \<in> set (select_bundle filters ids t)" and "r2 \<in> set (select_bundle filters ids t)"
    and "row_bundle_id r1 = row_bundle_id r2"
  shows "r1 = r2"
proof -
  from assms(1) obtain i where i: "select_row filters t i = Some r1"
    by (auto simp: set_select_bundle)
  from assms(2) obtain j where j: "select_row filters t j = Some r2"
    by (auto simp: set_select_bundle)
  from assms(3) select_row_id[OF i] select_row_id[OF j] have "i = j" by simp
  with i j show "r1 = r2" by simp
qed

lemma to_queue_of_row:
  assumes "row \<in> set (select_bundle filters ids t)"
  shows "row_bundle_id row \<in> set (to_queue_of now filters ids t) \<longleftrightarrow> requeue now row"
  using assms select_bundle_unique[OF assms]
  by (auto simp: to_queue_of_def Let_def)

lemma requeue_iff:
  "requeue now row \<longleftrightarrow> \<not> row_queued_for_update row \<and>
     (now - row_last_update row > 518400 \<or>
      (row_name row = None \<or> row_name row = Some []) \<and> row_removed row \<noteq> Some True \<and>
       now - row_last_update row > 86400)"
  by (auto simp: requeue_def isSet_def Let_def split: option.splits)

text \<open>The projection of a returned row, and whether the queue write names the row.\<close>

lemma get_row_projection:
  assumes "get fails now q ids d = (Inr bundles, d')"
    and "row \<in> set (select_bundle (make_filters (params_filters q)) ids (tables d))"
  shows "\<exists>b \<in> set bundles. bundle_id b = row_bundle_id row \<and>
           bundle_queued_for_update b = (row_queued_for_update row \<or> requeue now row) \<and>
           (row_bundle_id row \<in> set (queue_written (issued d d')) \<longleftrightarrow> requeue now row)"
proof -
  let ?fs = "make_filters (params_filters q)"
  let ?b = "project ?fs (appMap_of ?fs ids (tables d)) now row"
  have in_b: "?b \<in> set bundles"
    using get_Inr(1)[OF assms(1)] assms(2) by simp
  have qw: "row_bundle_id row \<in> set (queue_written (issued d d')) \<longleftrightarrow> requeue now row"
    using queue_written_get[OF assms(1)] to_queue_of_row[OF assms(2)] by simp
  have "bundle_id ?b = row_bundle_id row"
    and "bundle_queued_for_update ?b = (row_queued_for_update row \<or> requeue now row)"
    by (simp_all add: project_def)
  with in_b qw show ?thesis
    by (intro bexI[of _ ?b]) auto
qed

lemma select_row_fields:
  assumes "select_row filters t i = Some row"
  shows "row_name row = (if f_name filters then games_bundle_name t i else None)"
    and "row_removed row =
           (if f_removed filters then map_option b_removed (games_bundle t i) else None)"
  using assms by (auto simp: select_row_def split: option.splits if_splits)

text \<open>
  Two days after the last update, with only \<^verbatim>\<open>apps\<close> requested: bundle 1 has the name
  Alpha in the store and bundle 2 is stored as removed, yet the rows of both come back
  without \<^verbatim>\<open>name\<close> and \<^verbatim>\<open>removed\<close>, and both are marked and written to the queue.
\<close>

theorem get_requeue_filtered_counterexample:
  "games_bundle_name (tables shop) 1 = Some ''Alpha''
   \<and> games_bundle (tables shop) 2 =
       Some \<lparr>b_removed = True, b_last_update = 1000, b_queued_for_update = False\<rparr>
   \<and> fst (get no_failure 173800 q_apps [1, 2] shop) =
       Inr [\<lparr>bundle_id = 1, bundle_name = None, bundle_removed = None,
             bundle_apps = Some [Finite 10, Finite 20],
             bundle_last_update = FormatDate 1000000 True, bundle_queued_for_update = True\<rparr>,
            \<lparr>bundle_id = 2, bundle_name = None, bundle_removed = None, bundle_apps = Some [],
             bundle_last_update = FormatDate 1000000 True, bundle_queued_for_update = True\<rparr>]
   \<and> queue_written (issued shop (snd (get no_failure 173800 q_apps [1, 2] shop))) = [1, 2]"
  by (simp add: get_defs q_apps_def shop_def)

text \<open>
  C1, amended. In \<^verbatim>\<open>get\<close>, every row the query returns has a projection. When the row's
  stored \<^verbatim>\<open>queued_for_update\<close> is true, the projection's is true as well. When it is
  false, the projection's \<^verbatim>\<open>queued_for_update\<close> is true, and the identifier is among
  those of the queue write, exactly when the row's age (now minus \<^verbatim>\<open>last_update\<close>)
  exceeds 6 days (518400 seconds), or the name field of the returned row is absent or
  empty, its \<^verbatim>\<open>removed\<close> field is not true, and its age exceeds 1 day (86400 seconds).
  The two fields are those of the returned row, not of the store: the name field is the
  stored name when \<^verbatim>\<open>name\<close> is among the included fields and absent otherwise; the
  \<^verbatim>\<open>removed\<close> field is the stored \<^verbatim>\<open>removed\<close> when \<^verbatim>\<open>removed\<close> is among the included
  fields and absent, so not true, otherwise.
\<close>

theorem get_requeue_rule:
  assumes "get fails now q ids d = (Inr bundles, d')"
    and "row \<in> set (select_bundle (make_filters (params_filters q)) ids (tables d))"
  shows "row_name row =
           (if f_name (make_filters (params_filters q))
            then games_bundle_name (tables d) (row_bundle_id row) else None)
    \<and> row_removed row =
           (if f_removed (make_filters (params_filters q))
            then map_option b_removed (games_bundle (tables d) (row_bundle_id row)) else None)
    \<and> (\<exists>b \<in> set bundles. bundle_id b = row_bundle_id row \<and>
           (if row_queued_for_update row then bundle_queued_for_update b
            else (bundle_queued_for_update b \<longleftrightarrow>
                    now - row_last_update row > 518400 \<or>
                    (row_name row = None \<or> row_name row = Some []) \<and>
                    row_removed row \<noteq> Some True \<and> now - row_last_update row > 86400) \<and>
                 (row_bundle_id row \<in> set (queue_written (issued d d')) \<longleftrightarrow>
                    now - row_last_update row > 518400 \<or>
                    (row_name row = None \<or> row_name row = Some []) \<and>
                    row_removed row \<noteq> Some True \<and> now - row_last_update row > 86400)))"
proof -
  from assms(2) obtain i where i: "select_row (make_filters (params_filters q)) (tables d) i = Some row"
    by (auto simp: set_select_bundle)
  from select_row_id[OF i] select_row_fields[OF i] have fields:
    "row_name row =
           (if f_name (make_filters (params_filters q))
            then games_bundle_name (tables d) (row_bundle_id row) else None)"
    "row_removed row =
           (if f_removed (make_filters (params_filters q))
            then map_option b_removed (games_bundle (tables d) (row_bundle_id row)) else None)"
    by simp_all
  from get_row_projection[OF assms] obtain b where "b \<in> set bundles"
    and "bundle_id b = row_bundle_id row"
    and "bundle_queued_for_update b = (row_queued_for_update row \<or> requeue now row)"
    and "row_bundle_id row \<in> set (queue_written (issued d d')) \<longleftrightarrow> requeue now row"
    by blast
  then have "\<exists>b \<in> set bundles. bundle_id b = row_bundle_id row \<and>
           (if row_queued_for_update row then bundle_queued_for_update b
            else (bundle_queued_for_update b \<longleftrightarrow>
                    now - row_last_update row > 518400 \<or>
                    (row_name row = None \<or> row_name row = Some []) \<and>
                    row_removed row \<noteq> Some True \<and> now - row_last_update row > 86400) \<and>
                 (row_bundle_id row \<in> set (queue_written (issued d d')) \<longleftrightarrow>
                    now - row_last_update row > 518400 \<or>
                    (row_name row = None \<or> row_name row = Some []) \<and>
                    row_removed row \<noteq> Some True \<and> now - row_last_update row > 86400))"
    unfolding requeue_iff by (intro bexI[of _ b]) auto
  with fields show ?thesis by blast
qed

text \<open>
  With only \<^verbatim>\<open>removed\<close> requested, two days after the last update: the row of bundle 1
  has no name field and is not removed, so it is marked and written to the queue.
\<close>

theorem get_requeue_rule_witness:
  "get no_failure 173800 q_removed [1, 2, 3, 4] shop =
     (Inr [\<lparr>bundle_id = 1, bundle_name = None, bundle_removed = Some False, bundle_apps = None,
            bundle_last_update = FormatDate 1000000 True, bundle_queued_for_update = True\<rparr>,
           \<lparr>bundle_id = 2, bundle_name = None, bundle_removed = Some True, bundle_apps = None,
            bundle_last_update = FormatDate 1000000 True, bundle_queued_for_update = False\<rparr>,
           \<lparr>bundle_id = 3, bundle_name = None, bundle_removed = Some False, bundle_apps = None,
            bundle_last_update = FormatDate 1000000 True, bundle_queued_for_update = True\<rparr>],
      snd (get no_failure 173800 q_removed [1, 2, 3, 4] shop))
   \<and> \<lparr>row_bundle_id = 1, row_name = None, row_removed = Some False, row_last_update = 1000,
       row_queued_for_update = False\<rparr>
       \<in> set (select_bundle (make_filters (params_filters q_removed)) [1, 2, 3, 4] (tables shop))
   \<and> 1 \<in> set (queue_written (issued shop (snd (get no_failure 173800 q_removed [1, 2, 3, 4] shop))))"
proof -
  let ?row = "\<lparr>row_bundle_id = 1, row_name = None, row_removed = Some False,
               row_last_update = 1000, row_queued_for_update = False\<rparr>"
  have h1: "get no_failure 173800 q_removed [1, 2, 3, 4] shop =
     (Inr [\<lparr>bundle_id = 1, bundle_name = None, bundle_removed = Some False, bundle_apps = None,
            bundle_last_update = FormatDate 1000000 True, bundle_queued_for_update = True\<rparr>,
           \<lparr>bundle_id = 2, bundle_name = None, bundle_removed = Some True, bundle_apps = None,
            bundle_last_update = FormatDate 1000000 True, bundle_queued_for_update = False\<rparr>,
           \<lparr>bundle_id = 3, bundle_name = None, bundle_removed = Some False, bundle_apps = None,
            bundle_last_update = FormatDate 1000000 True, bundle_queued_for_update = True\<rparr>],
      snd (get no_failure 173800 q_removed [1, 2, 3, 4] shop))"
    by (simp add: get_defs q_removed_def shop_def)
  have h2: "?row \<in> set (select_bundle (make_filters (params_filters q_removed)) [1, 2, 3, 4]
                        (tables shop))"
    by (simp add: get_defs q_removed_def shop_def)
  from get_requeue_rule[OF h1 h2] have "1 \<in> set (queue_written
      (issued shop (snd (get no_failure 173800 q_removed [1, 2, 3, 4] shop))))"
    by simp
  with h1 h2 show ?thesis by simp
qed

text \<open>
  Two hours after the last update no returned row is stale. Bundle 5 (no name, not
  removed, not queued), read with only \<^verbatim>\<open>removed\<close> requested, keeps
  \<^verbatim>\<open>queued_for_update\<close> false and nothing is written. With every field requested the
  inner join with the name table returns no row for a bundle without a name, so the
  removed bundle 2 is treated as not found and is queued.
\<close>

theorem get_two_hours_counterexample:
  "fst (get no_failure 8200 q_removed [5] shop) =
     Inr [\<lparr>bundle_id = 5, bundle_name = None, bundle_removed = Some False, bundle_apps = None,
           bundle_last_update = FormatDate 1000000 True, bundle_queued_for_update = False\<rparr>]
   \<and> issued shop (snd (get no_failure 8200 q_removed [5] shop)) = [Select_bundle False True [5]]
   \<and> games_bundle (tables (snd (get no_failure 8200 q_removed [5] shop))) 5 =
       Some \<lparr>b_removed = False, b_last_update = 1000, b_queued_for_update = False\<rparr>
   \<and> fst (get no_failure 8200 q_default [2] shop) = Inr []
   \<and> queue_written (issued shop (snd (get no_failure 8200 q_default [2] shop))) = [2]
   \<and> games_bundle (tables (snd (get no_failure 8200 q_default [2] shop))) 2 =
       Some \<lparr>b_removed = True, b_last_update = 1000, b_queued_for_update = True\<rparr>"
  by (simp add: get_defs q_default_def q_removed_def shop_def)

text \<open>
  C2, amended. In \<^verbatim>\<open>get\<close>, a returned row whose age is more than 1 day and at most
  6 days, whose name field is absent or empty and whose stored \<^verbatim>\<open>queued_for_update\<close> is
  false, is marked for requeue (in its projection and in the queue write) when its
  \<^verbatim>\<open>removed\<close> field is not true, and is not marked when its \<^verbatim>\<open>removed\<close> field is true.
\<close>

theorem get_requeue_nameless:
  assumes "get fails now q ids d = (Inr bundles, d')"
    and "row \<in> set (select_bundle (make_filters (params_filters q)) ids (tables d))"
    and "\<not> row_queued_for_update row"
    and "row_name row = None \<or> row_name row = Some []"
    and "86400 < now - row_last_update row"
    and "now - row_last_update row \<le> 518400"
  shows "\<exists>b \<in> set bundles. bundle_id b = row_bundle_id row \<and>
           (bundle_queued_for_update b \<longleftrightarrow> row_removed row \<noteq> Some True) \<and>
           (row_bundle_id row \<in> set (queue_written (issued d d')) \<longleftrightarrow>
              row_removed row \<noteq> Some True)"
proof -
  from get_row_projection[OF assms(1,2)] obtain b where "b \<in> set bundles"
    and "bundle_id b = row_bundle_id row"
    and "bundle_queued_for_update b = (row_queued_for_update row \<or> requeue now row)"
    and "row_bundle_id row \<in> set (queue_written (issued d d')) \<longleftrightarrow> requeue now row"
    by blast
  moreover have "requeue now row \<longleftrightarrow> row_removed row \<noteq> Some True"
    using assms(3-6) by (auto simp: requeue_iff)
  ultimately show ?thesis
    using assms(3) by (intro bexI[of _ b]) auto
qed

text \<open>Two days after the last update: bundle 5 is marked, the removed bundle 2 is not.\<close>

theorem get_requeue_nameless_witness:
  "get no_failure 173800 q_removed [2, 5] shop =
     (Inr [\<lparr>bundle_id = 2, bundle_name = None, bundle_removed = Some True, bundle_apps = None,
            bundle_last_update = FormatDate 1000000 True, bundle_queued_for_update = False\<rparr>,
           \<lparr>bundle_id = 5, bundle_name = None, bundle_removed = Some False, bundle_apps = None,
            bundle_last_update = FormatDate 1000000 True, bundle_queued_for_update = True\<rparr>],
      snd (get no_failure 173800 q_removed [2, 5] shop))
   \<and> \<lparr>row_bundle_id = 5, row_name = None, row_removed = Some False, row_last_update = 1000,
       row_queued_for_update = False\<rparr>
       \<in> set (select_bundle (make_filters (params_filters q_removed)) [2, 5] (tables shop))
   \<and> \<lparr>row_bundle_id = 2, row_name = None, row_removed = Some True, row_last_update = 1000,
       row_queued_for_update = False\<rparr>
       \<in> set (select_bundle (make_filters (params_filters q_removed)) [2, 5] (tables shop))
   \<and> (86400::int) < 173800 - 1000 \<and> (173800::int) - 1000 \<le> 518400
   \<and> 5 \<in> set (queue_written (issued shop (snd (get no_failure 173800 q_removed [2, 5] shop))))
   \<and> 2 \<notin> set (queue_written (issued shop (snd (get no_failure 173800 q_removed [2, 5] shop))))"
proof -
  let ?r5 = "\<lparr>row_bundle_id = 5, row_name = None, row_removed = Some False,
              row_last_update = 1000, row_queued_for_update = False\<rparr>"
  let ?r2 = "\<lparr>row_bundle_id = 2, row_name = None, row_removed = Some True,
              row_last_update = 1000, row_queued_for_update = False\<rparr>"
  have h1: "get no_failure 173800 q_removed [2, 5] shop =
     (Inr [\<lparr>bundle_id = 2, bundle_name = None, bundle_removed = Some True, bundle_apps = None,
            bundle_last_update = FormatDate 1000000 True, bundle_queued_for_update = False\<rparr>,
           \<lparr>bundle_id = 5, bundle_name = None, bundle_removed = Some False, bundle_apps = None,
            bundle_last_update = FormatDate 1000000 True, bundle_queued_for_update = True\<rparr>],
      snd (get no_failure 173800 q_removed [2, 5] shop))"
    by (simp add: get_defs q_removed_def shop_def)
  have h5: "?r5 \<in> set (select_bundle (make_filters (params_filters q_removed)) [2, 5] (tables shop))"
    and h2: "?r2 \<in> set (select_bundle (make_filters (params_filters q_removed)) [2, 5] (tables shop))"
    by (simp_all add: get_defs q_removed_def shop_def)
  from get_requeue_nameless[OF h1 h5] have
    "5 \<in> set (queue_written (issued shop (snd (get no_failure 173800 q_removed [2, 5] shop))))"
    by simp
  moreover from get_requeue_nameless[OF h1 h2] have
    "2 \<notin> set (queue_written (issued shop (snd (get no_failure 173800 q_removed [2, 5] shop))))"
    by simp
  ultimately show ?thesis using h1 h5 h2 by simp
qed


lemma select_row_None:
  "select_row filters t i = None \<longleftrightarrow>
     games_bundle t i = None \<or> (f_name filters \<and> games_bundle_name t i = None)"
  by (auto simp: select_row_def split: option.splits)

lemma queue_all_apply:
  "foldl (queue_one dflt) m ids i =
     (if i \<in> set ids
      then Some ((case m i of None \<Rightarrow> dflt | Some r \<Rightarrow> r)\<lparr>b_queued_for_update := True\<rparr>)
      else m i)"
  by (induction ids arbitrary: m) (auto simp: queue_one_def split: option.splits)

text \<open>With valid filters and some identifier, \<^verbatim>\<open>get\<close> returns when no statement fails.\<close>

lemma get_returns:
  assumes "validateParams (params_filters q) = Inr ()" and "ids \<noteq> []"
  shows "\<exists>bundles d'. get no_failure now q ids d = (Inr bundles, d')"
  using assms
  by (auto simp: get_def Let_def Pool_query_def load_appMap_def write_queue_def
      Pool_transaction_def Pool_beginTransaction_def Pool_commit_def no_failure_def
      split: sum.splits prod.splits if_splits)

text \<open>
  Bundle 5 has a row in the primary table and none in the name table. With every field
  requested, \<^verbatim>\<open>get\<close> returns no projection for it.
\<close>

theorem get_unnamed_counterexample:
  "games_bundle (tables shop) 5 =
     Some \<lparr>b_removed = False, b_last_update = 1000, b_queued_for_update = False\<rparr>
   \<and> fst (get no_failure 8200 q_default [5] shop) = Inr []"
  by (simp add: get_defs q_default_def shop_def)

text \<open>
  C3, amended. When \<^verbatim>\<open>get\<close> returns, it returns exactly one projection for each
  requested identifier that has a row in the primary table and, when \<^verbatim>\<open>name\<close> is among
  the included fields, a row in the name table (the query joins that table with
  \<^verbatim>\<open>INNER JOIN\<close>), and no other projection. Every requested identifier without a row
  in the primary table is absent from the projections and, when \<^verbatim>\<open>get\<close> returns, has a
  row made of the column defaults with \<^verbatim>\<open>queued_for_update\<close> true; the name and
  application tables are as before.
\<close>

theorem get_projections:
  assumes "get fails now q ids d = (Inr bundles, d')"
  shows "distinct (map bundle_id bundles)
    \<and> set (map bundle_id bundles) =
        {i \<in> set ids. games_bundle (tables d) i \<noteq> None \<and>
           (f_name (make_filters (params_filters q)) \<longrightarrow> games_bundle_name (tables d) i \<noteq> None)}
    \<and> (\<forall>i \<in> set ids. games_bundle (tables d) i = None \<longrightarrow>
          i \<notin> set (map bundle_id bundles) \<and>
          games_bundle (tables d') i = Some ((column_defaults d)\<lparr>b_queued_for_update := True\<rparr>))
    \<and> games_bundle_name (tables d') = games_bundle_name (tables d)
    \<and> games_bundle_app (tables d') = games_bundle_app (tables d)"
proof -
  let ?fs = "make_filters (params_filters q)"
  let ?t = "tables d"
  let ?tq = "to_queue_of now ?fs ids ?t"
  have ids: "map bundle_id bundles = map row_bundle_id (select_bundle ?fs ids ?t)"
    using get_Inr(1)[OF assms] by (simp add: project_def comp_def)
  have d: "distinct (map bundle_id bundles)"
    unfolding ids select_bundle_ids by simp
  have s: "set (map bundle_id bundles) =
        {i \<in> set ids. games_bundle ?t i \<noteq> None \<and> (f_name ?fs \<longrightarrow> games_bundle_name ?t i \<noteq> None)}"
    unfolding ids select_bundle_ids by (auto simp: select_row_None)
  have u: "i \<notin> set (map bundle_id bundles) \<and>
          games_bundle (tables d') i = Some ((column_defaults d)\<lparr>b_queued_for_update := True\<rparr>)"
    if "i \<in> set ids" and "games_bundle ?t i = None" for i
  proof -
    from that s have notin: "i \<notin> set (map bundle_id bundles)" by simp
    with that(1) have "i \<in> set ?tq"
      unfolding ids by (simp add: to_queue_of_def Let_def)
    then have "?tq \<noteq> []" and "i \<in> set ?tq" by auto
    with get_Inr(2)[OF assms] that(2) notin show ?thesis
      by (simp add: queue_all_apply)
  qed
  have n: "games_bundle_name (tables d') = games_bundle_name ?t"
    and a: "games_bundle_app (tables d') = games_bundle_app ?t"
    using get_Inr(2)[OF assms] by (simp_all split: if_splits)
  from d s u n a show ?thesis by blast
qed

text \<open>
  With every field requested: bundles 1 and 3 are returned, bundle 2 is not (it has no
  name), and the unknown bundle 4 gets a bare queued row.
\<close>

theorem get_projections_witness:
  "get no_failure 173800 q_default [1, 2, 3, 4] shop =
     (Inr [\<lparr>bundle_id = 1, bundle_name = Some ''Alpha'', bundle_removed = Some False,
            bundle_apps = Some [Finite 10, Finite 20], bundle_last_update = FormatDate 1000000 True,
            bundle_queued_for_update = False\<rparr>,
           \<lparr>bundle_id = 3, bundle_name = Some ''Gamma'', bundle_removed = Some False,
            bundle_apps = Some [], bundle_last_update = FormatDate 1000000 True,
            bundle_queued_for_update = True\<rparr>],
      snd (get no_failure 173800 q_default [1, 2, 3, 4] shop))
   \<and> (4::int) \<in> set [1, 2, 3, 4] \<and> games_bundle (tables shop) 4 = None
   \<and> games_bundle (tables (snd (get no_failure 173800 q_default [1, 2, 3, 4] shop))) 4 =
       Some \<lparr>b_removed = False, b_last_update = 0, b_queued_for_update = True\<rparr>"
proof -
  have h1: "get no_failure 173800 q_default [1, 2, 3, 4] shop =
     (Inr [\<lparr>bundle_id = 1, bundle_name = Some ''Alpha'', bundle_removed = Some False,
            bundle_apps = Some [Finite 10, Finite 20], bundle_last_update = FormatDate 1000000 True,
            bundle_queued_for_update = False\<rparr>,
           \<lparr>bundle_id = 3, bundle_name = Some ''Gamma'', bundle_removed = Some False,
            bundle_apps = Some [], bundle_last_update = FormatDate 1000000 True,
            bundle_queued_for_update = True\<rparr>],
      snd (get no_failure 173800 q_default [1, 2, 3, 4] shop))"
    by (simp add: get_defs q_default_def shop_def)
  have h2: "(4::int) \<in> set [1, 2, 3, 4]" and h3: "games_bundle (tables shop) 4 = None"
    by (simp_all add: shop_def)
  from get_projections[OF h1] h2 h3 have
    "games_bundle (tables (snd (get no_failure 173800 q_default [1, 2, 3, 4] shop))) 4 =
       Some ((column_defaults shop)\<lparr>b_queued_for_update := True\<rparr>)"
    by blast
  then have "games_bundle (tables (snd (get no_failure 173800 q_default [1, 2, 3, 4] shop))) 4 =
       Some \<lparr>b_removed = False, b_last_update = 0, b_queued_for_update = True\<rparr>"
    by (simp add: shop_def)
  with h1 h2 h3 show ?thesis by simp
qed

text \<open>
  Two days after the last update, bundle 1 (named, not removed, not queued): with only
  \<^verbatim>\<open>name\<close> requested nothing is written to the queue; with only \<^verbatim>\<open>removed\<close> requested
  the row has no name field and bundle 1 is written to the queue.
\<close>

theorem get_filters_counterexample:
  "validateParams (params_filters q_name) = Inr ()
   \<and> validateParams (params_filters q_removed) = Inr ()
   \<and> queue_written (issued shop (snd (get no_failure 173800 q_name [1] shop))) = []
   \<and> queue_written (issued shop (snd (get no_failure 173800 q_removed [1] shop))) = [1]"
  by (simp add: get_defs q_removed_def q_name_def shop_def)

lemma select_bundle_cong:
  assumes "f_name fs1 = f_name fs2" and "f_removed fs1 = f_removed fs2"
  shows "select_bundle fs1 ids t = select_bundle fs2 ids t"
proof -
  have "select_row fs1 t = select_row fs2 t"
    using assms by (auto simp: select_row_def fun_eq_iff split: option.splits)
  then show ?thesis by (simp add: select_bundle_def)
qed

text \<open>
  C4, amended. For a fixed store, clock and identifier list, two calls of \<^verbatim>\<open>get\<close> that
  return and whose filters agree on whether \<^verbatim>\<open>name\<close> is included and on whether
  \<^verbatim>\<open>removed\<close> is included write the same identifiers to the queue, leave the same
  tables, and return projections of the same identifiers with the same
  \<^verbatim>\<open>queued_for_update\<close>: including \<^verbatim>\<open>apps\<close> or not changes only the fields returned.
\<close>

theorem get_filters_noninterference:
  assumes "get fails1 now q1 ids d = (Inr bundles1, d1)"
    and "get fails2 now q2 ids d = (Inr bundles2, d2)"
    and "f_name (make_filters (params_filters q1)) = f_name (make_filters (params_filters q2))"
    and "f_removed (make_filters (params_filters q1))
           = f_removed (make_filters (params_filters q2))"
  shows "queue_written (issued d d1) = queue_written (issued d d2)
    \<and> tables d1 = tables d2
    \<and> map bundle_id bundles1 = map bundle_id bundles2
    \<and> map bundle_queued_for_update bundles1 = map bundle_queued_for_update bundles2"
proof -
  let ?fs1 = "make_filters (params_filters q1)" and ?fs2 = "make_filters (params_filters q2)"
  have rows: "select_bundle ?fs1 ids (tables d) = select_bundle ?fs2 ids (tables d)"
    using assms(3,4) by (rule select_bundle_cong)
  then have tq: "to_queue_of now ?fs1 ids (tables d) = to_queue_of now ?fs2 ids (tables d)"
    by (simp add: to_queue_of_def)
  have "queue_written (issued d d1) = queue_written (issued d d2)"
    using queue_written_get[OF assms(1)] queue_written_get[OF assms(2)] tq by simp
  moreover have "tables d1 = tables d2"
    using get_Inr(2)[OF assms(1)] get_Inr(2)[OF assms(2)] tq by simp
  moreover have "map bundle_id bundles1 = map bundle_id bundles2"
    and "map bundle_queued_for_update bundles1 = map bundle_queued_for_update bundles2"
    using get_Inr(1)[OF assms(1)] get_Inr(1)[OF assms(2)] rows
    by (simp_all add: project_def comp_def)
  ultimately show ?thesis by simp
qed

text \<open>Every field requested against \<^verbatim>\<open>removed,name\<close>: the calls differ on \<^verbatim>\<open>apps\<close> alone.\<close>

theorem get_filters_noninterference_witness:
  "fst (get no_failure 173800 q_default [1, 2, 3, 4] shop) =
     Inr [\<lparr>bundle_id = 1, bundle_name = Some ''Alpha'', bundle_removed = Some False,
           bundle_apps = Some [Finite 10, Finite 20], bundle_last_update = FormatDate 1000000 True,
           bundle_queued_for_update = False\<rparr>,
          \<lparr>bundle_id = 3, bundle_name = Some ''Gamma'', bundle_removed = Some False,
           bundle_apps = Some [], bundle_last_update = FormatDate 1000000 True,
           bundle_queued_for_update = True\<rparr>]
   \<and> fst (get no_failure 173800 q_name_removed [1, 2, 3, 4] shop) =
     Inr [\<lparr>bundle_id = 1, bundle_name = Some ''Alpha'', bundle_removed = Some False,
           bundle_apps = None, bundle_last_update = FormatDate 1000000 True,
           bundle_queued_for_update = False\<rparr>,
          \<lparr>bundle_id = 3, bundle_name = Some ''Gamma'', bundle_removed = Some False,
           bundle_apps = None, bundle_last_update = FormatDate 1000000 True,
           bundle_queued_for_update = True\<rparr>]
   \<and> f_name (make_filters (params_filters q_default))
       = f_name (make_filters (params_filters q_name_removed))
   \<and> f_removed (make_filters (params_filters q_default))
       = f_removed (make_filters (params_filters q_name_removed))
   \<and> queue_written (issued shop (snd (get no_failure 173800 q_default [1, 2, 3, 4] shop)))
       = queue_written (issued shop (snd (get no_failure 173800 q_name_removed [1, 2, 3, 4] shop)))
   \<and> queue_written (issued shop (snd (get no_failure 173800 q_default [1, 2, 3, 4] shop)))
       = [2, 4]"
proof -
  let ?g1 = "get no_failure 173800 q_default [1, 2, 3, 4] shop"
  let ?g2 = "get no_failure 173800 q_name_removed [1, 2, 3, 4] shop"
  let ?bs1 = "[\<lparr>bundle_id = 1, bundle_name = Some ''Alpha'', bundle_removed = Some False,
            bundle_apps = Some [Finite 10, Finite 20], bundle_last_update = FormatDate 1000000 True,
            bundle_queued_for_update = False\<rparr>,
           \<lparr>bundle_id = 3, bundle_name = Some ''Gamma'', bundle_removed = Some False,
            bundle_apps = Some [], bundle_last_update = FormatDate 1000000 True,
            bundle_queued_for_update = True\<rparr>]"
  let ?bs2 = "[\<lparr>bundle_id = 1, bundle_name = Some ''Alpha'', bundle_removed = Some False,
            bundle_apps = None, bundle_last_update = FormatDate 1000000 True,
            bundle_queued_for_update = False\<rparr>,
           \<lparr>bundle_id = 3, bundle_name = Some ''Gamma'', bundle_removed = Some False,
            bundle_apps = None, bundle_last_update = FormatDate 1000000 True,
            bundle_queued_for_update = True\<rparr>]"
  have f1: "fst ?g1 = Inr ?bs1" and f2: "fst ?g2 = Inr ?bs2"
    by (simp_all add: get_defs q_default_def q_name_removed_def shop_def)
  have h1: "?g1 = (Inr ?bs1, snd ?g1)" and h2: "?g2 = (Inr ?bs2, snd ?g2)"
    using f1 f2 by (simp_all add: prod_eq_iff)
  have h3: "f_name (make_filters (params_filters q_default))
       = f_name (make_filters (params_filters q_name_removed))"
    and h4: "f_removed (make_filters (params_filters q_default))
       = f_removed (make_filters (params_filters q_name_removed))"
    by (simp_all add: get_defs q_default_def q_name_removed_def)
  from get_filters_noninterference[OF h1 h2 h3 h4]
  have e: "queue_written (issued shop (snd ?g1)) = queue_written (issued shop (snd ?g2))"
    by blast
  have w: "queue_written (issued shop (snd ?g1)) = [2, 4]"
    by (simp add: get_defs q_default_def q_name_removed_def shop_def)
  from f1 f2 h3 h4 e w show ?thesis by blast
qed

text \<open>
  The filter string \<^verbatim>\<open>name,bogus\<close> fails validation with the message that lists the
  allowed values, whatever the store, and leaves the connection as it was: no
  statement is sent.
\<close>

lemma get_rejects_bogus:
  "get fails now q_bogus ids d =
     (Inl (Validation_error
        ''Must be a comma-separated list containing the following values: name, removed, apps''),
      d)"
  by (simp add: get_def params_filters_def truthy_string_def validateParams_def
      test_anchored_def validator_regex_def validator_message_def columnKeys_def Opt_def
      Plus_def q_bogus_def)

text \<open>
  C7. The filter string \<^verbatim>\<open>nameremoved\<close> has the single comma-separated token
  \<^verbatim>\<open>nameremoved\<close>, which is none of \<^verbatim>\<open>name\<close>, \<^verbatim>\<open>removed\<close>, \<^verbatim>\<open>apps\<close>. The pattern of
  line 46 makes the comma optional, so the string passes validation: \<^verbatim>\<open>get\<close> sends the
  query and returns projections without any optional field.
\<close>

theorem get_accepts_nameremoved:
  "str_split CHR '','' ''nameremoved'' = [''nameremoved'']
   \<and> validateParams (params_filters q_nameremoved) = Inr ()
   \<and> fst (get no_failure 8200 q_nameremoved [1] shop) =
       Inr [\<lparr>bundle_id = 1, bundle_name = None, bundle_removed = None, bundle_apps = None,
             bundle_last_update = FormatDate 1000000 True, bundle_queued_for_update = False\<rparr>]
   \<and> issued shop (snd (get no_failure 8200 q_nameremoved [1] shop))
       = [Select_bundle False False [1]]"
  by (simp add: get_defs q_nameremoved_def shop_def)

lemma load_appMap_frame:
  assumes "load_appMap fails filters ids d = (res, d')"
  shows "tables d' = tables d \<and> column_defaults d' = column_defaults d \<and>
    (\<exists>sts. log d' = log d @ sts \<and> (\<forall>st \<in> set sts. read_or_queue st))"
  using assms
  by (auto simp: load_appMap_def Pool_query_def Let_def split: if_splits)

lemma write_queue_frame:
  assumes "write_queue fails tq d = (res, d')"
  shows "(tables d' = tables d \<or>
          tables d' = exec (column_defaults d) (Insert_queue tq) (tables d)) \<and>
    (\<exists>sts. log d' = log d @ sts \<and> (\<forall>st \<in> set sts. read_or_queue st))"
  using assms
  by (auto simp: write_queue_def Pool_transaction_def Pool_query_def Pool_beginTransaction_def
      Pool_commit_def Pool_rollback_def Let_def split: if_splits)

lemma get_frame_aux:
  assumes "get fails now q ids d = (res, d')"
  shows "(tables d' = tables d \<or>
          (\<exists>tq. tables d' = exec (column_defaults d) (Insert_queue tq) (tables d))) \<and>
    (\<exists>sts. log d' = log d @ sts \<and> (\<forall>st \<in> set sts. read_or_queue st))"
proof (cases "validateParams (params_filters q)")
  case (Inl e)
  with assms show ?thesis by (simp add: get_def)
next
  case (Inr u)
  define filters where "filters = make_filters (params_filters q)"
  define st where "st = Select_bundle (f_name filters) (f_removed filters) ids"
  obtain r1 d1 where q1: "Pool_query fails st d = (r1, d1)" by force
  then have f1: "tables d1 = tables d" "column_defaults d1 = column_defaults d"
    "log d1 = log d @ [st]"
    by (auto simp: Pool_query_def Let_def st_def split: if_splits)
  have rq: "read_or_queue st" by (simp add: st_def)
  show ?thesis
  proof (cases r1)
    case (Inl e)
    with assms Inr q1 have "d' = d1"
      by (simp add: get_def filters_def st_def)
    with f1 rq show ?thesis by simp
  next
    case r1: (Inr u1)
    obtain r2 d2 where q2: "load_appMap fails filters ids d1 = (r2, d2)" by force
    from load_appMap_frame[OF q2] f1 rq have f2: "tables d2 = tables d"
      "column_defaults d2 = column_defaults d"
      "\<exists>sts. log d2 = log d @ sts \<and> (\<forall>st \<in> set sts. read_or_queue st)"
      by auto
    show ?thesis
    proof (cases r2)
      case (Inl e)
      with assms Inr q1 r1 q2 have "d' = d2"
        by (simp add: get_def Let_def filters_def st_def)
      with f2 show ?thesis by simp
    next
      case r2: (Inr appMap)
      obtain bundles found to_queue where
        rl: "rows_loop filters appMap now (select_bundle filters ids (tables d1))
              = (bundles, found, to_queue)"
        by (cases "rows_loop filters appMap now (select_bundle filters ids (tables d1))") auto
      define tq where "tq = to_queue @ filter (\<lambda>id. id \<notin> set found) ids"
      obtain r3 d3 where q3: "write_queue fails tq d2 = (r3, d3)" by force
      from assms Inr q1 r1 q2 r2 rl q3 have "d' = d3"
        by (auto simp: get_def Let_def filters_def st_def tq_def split: sum.splits)
      with write_queue_frame[OF q3] f2 show ?thesis by auto
    qed
  qed
qed

text \<open>
  C9. Whether \<^verbatim>\<open>get\<close> returns or fails, it leaves the name table and the application
  table as they were, and every row of the primary table either as it was or with
  \<^verbatim>\<open>queued_for_update\<close> set to true and nothing else changed, so \<^verbatim>\<open>last_update\<close> and
  \<^verbatim>\<open>removed\<close> stay. Of the statements it sends, the queue write is the only one that
  writes.
\<close>

theorem get_frame:
  assumes "get fails now q ids d = (res, d')"
  shows "games_bundle_name (tables d') = games_bundle_name (tables d)
    \<and> games_bundle_app (tables d') = games_bundle_app (tables d)
    \<and> (\<forall>i r. games_bundle (tables d) i = Some r \<longrightarrow>
         games_bundle (tables d') i = Some r \<or>
         games_bundle (tables d') i = Some (r\<lparr>b_queued_for_update := True\<rparr>))
    \<and> (\<forall>st \<in> set (issued d d'). read_or_queue st)"
proof -
  from get_frame_aux[OF assms] have
    t: "tables d' = tables d \<or>
          (\<exists>tq. tables d' = exec (column_defaults d) (Insert_queue tq) (tables d))"
    and l: "\<exists>sts. log d' = log d @ sts \<and> (\<forall>st \<in> set sts. read_or_queue st)"
    by auto
  from l have "\<forall>st \<in> set (issued d d'). read_or_queue st"
    by (auto simp: issued_def)
  moreover from t have "games_bundle_name (tables d') = games_bundle_name (tables d)"
    and "games_bundle_app (tables d') = games_bundle_app (tables d)"
    by auto
  moreover from t have "games_bundle (tables d') i = Some r \<or>
         games_bundle (tables d') i = Some (r\<lparr>b_queued_for_update := True\<rparr>)"
    if "games_bundle (tables d) i = Some r" for i r
    using that by (auto simp: queue_all_apply)
  ultimately show ?thesis by blast
qed

text \<open>Bundle 2 is not found under the join, so it is queued: its other columns stay.\<close>

theorem get_frame_witness:
  "games_bundle (tables shop) 2 =
     Some \<lparr>b_removed = True, b_last_update = 1000, b_queued_for_update = False\<rparr>
   \<and> games_bundle (tables (snd (get no_failure 173800 q_default [1, 2, 3, 4] shop))) 2 =
     Some \<lparr>b_removed = True, b_last_update = 1000, b_queued_for_update = True\<rparr>
   \<and> issued shop (snd (get no_failure 173800 q_default [1, 2, 3, 4] shop)) =
     [Select_bundle True True [1, 2, 3, 4], Select_bundle_app [1, 2, 3, 4],
      Begin_transaction, Insert_queue [2, 4], Commit]"
proof -
  let ?g = "get no_failure 173800 q_default [1, 2, 3, 4] shop"
  let ?r = "\<lparr>b_removed = True, b_last_update = 1000, b_queued_for_update = False\<rparr>"
  have h1: "?g = (fst ?g, snd ?g)" by simp
  have h2: "games_bundle (tables shop) 2 = Some ?r" by (simp add: shop_def)
  have h3: "issued shop (snd ?g) =
     [Select_bundle True True [1, 2, 3, 4], Select_bundle_app [1, 2, 3, 4],
      Begin_transaction, Insert_queue [2, 4], Commit]"
    by (simp add: get_defs q_default_def shop_def)
  have h4: "games_bundle (tables (snd ?g)) 2 \<noteq> Some ?r"
    by (simp add: get_defs q_default_def shop_def)
  from get_frame[OF h1] h2 have
    "games_bundle (tables (snd ?g)) 2 = Some ?r \<or>
     games_bundle (tables (snd ?g)) 2 = Some (?r\<lparr>b_queued_for_update := True\<rparr>)"
    by blast
  with h4 have "games_bundle (tables (snd ?g)) 2 =
     Some \<lparr>b_removed = True, b_last_update = 1000, b_queued_for_update = True\<rparr>"
    by simp
  with h2 h3 show ?thesis by simp
qed























section \<open>Properties of \<^verbatim>\<open>Bundle.fetch\<close>\<close>

lemmas fetch_defs =
  fetch_def upsert_def Pool_query_def Pool_beginTransaction_def Pool_commit_def
  Pool_rollback_def truthy_string_def test_unanchored_def url_regex_def Number_toString_def
  nat_to_string.simps line_terminator_def insert_app_def Let_def no_failure_def issued_def

lemma upsert_Inr:
  assumes "upsert fails bundleId b bundleName apps d = (Inr u, d')"
  shows "games_bundle (tables d') = (games_bundle (tables d))(bundleId \<mapsto> b)"
    and "games_bundle_name (tables d') =
          (if truthy_string bundleName then
             (case games_bundle_name (tables d) bundleId of
                None \<Rightarrow> (games_bundle_name (tables d))(bundleId \<mapsto> the bundleName)
              | Some n \<Rightarrow> games_bundle_name (tables d))
           else games_bundle_name (tables d))"
    and "games_bundle_app (tables d') = foldl (insert_app bundleId) (games_bundle_app (tables d)) apps"
  using assms
  by (auto simp: upsert_def Pool_query_def Pool_commit_def Let_def
      split: sum.splits prod.splits if_splits option.splits)

text \<open>A call of \<^verbatim>\<open>fetch\<close> that returns: the three tables afterwards.\<close>

lemma fetch_Inr:
  assumes "fetch fails now bundleId storeResponse d = (Inr u, d')"
  defines "page \<equiv> the (html storeResponse)"
    and "removed \<equiv> \<not> test_unanchored (url_regex bundleId) (url storeResponse)"
  defines "ok \<equiv> pageheader page \<noteq> None \<and> \<not> removed"
  shows "html storeResponse \<noteq> None"
    and "games_bundle (tables d') = (games_bundle (tables d))(bundleId \<mapsto>
        \<lparr>b_removed = removed, b_last_update = now, b_queued_for_update = False\<rparr>)"
    and "games_bundle_name (tables d') =
          (if ok \<and> truthy_string (pageheader page) then
             (case games_bundle_name (tables d) bundleId of
                None \<Rightarrow> (games_bundle_name (tables d))(bundleId \<mapsto> the (pageheader page))
              | Some n \<Rightarrow> games_bundle_name (tables d))
           else games_bundle_name (tables d))"
    and "games_bundle_app (tables d') =
          (if ok then foldl (insert_app bundleId) (games_bundle_app (tables d)) (ds_appids page)
           else games_bundle_app (tables d))"
proof -
  from assms(1) show some: "html storeResponse \<noteq> None"
    by (cases "html storeResponse") (auto simp: fetch_def)
  then have page: "html storeResponse = Some page" by (simp add: page_def)
  define b where "b = \<lparr>b_removed = removed, b_last_update = now, b_queued_for_update = False\<rparr>"
  define bundleName where "bundleName = (if ok then pageheader page else None)"
  define apps where "apps = (if ok then ds_appids page else [])"
  from assms(1) page obtain d1 where
    d1: "Pool_beginTransaction fails d = (Inr (), d1)"
    and up: "upsert fails bundleId b bundleName apps d1 = (Inr (), d')"
    by (auto simp: fetch_def Let_def removed_def ok_def b_def bundleName_def apps_def
        split: sum.splits prod.splits)
  from d1 have t1: "tables d1 = tables d"
    by (auto simp: Pool_beginTransaction_def Let_def split: if_splits)
  have name: "truthy_string bundleName \<longleftrightarrow> ok \<and> truthy_string (pageheader page)"
    by (simp add: bundleName_def truthy_string_def)
  show "games_bundle_name (tables d') =
          (if ok \<and> truthy_string (pageheader page) then
             (case games_bundle_name (tables d) bundleId of
                None \<Rightarrow> (games_bundle_name (tables d))(bundleId \<mapsto> the (pageheader page))
              | Some n \<Rightarrow> games_bundle_name (tables d))
           else games_bundle_name (tables d))"
    using upsert_Inr(2)[OF up] name by (auto simp: t1 bundleName_def split: option.splits)
  show "games_bundle_app (tables d') =
          (if ok then foldl (insert_app bundleId) (games_bundle_app (tables d)) (ds_appids page)
           else games_bundle_app (tables d))"
    using upsert_Inr(3)[OF up] by (simp add: t1 apps_def)
  show "games_bundle (tables d') = (games_bundle (tables d))(bundleId \<mapsto>
        \<lparr>b_removed = removed, b_last_update = now, b_queued_for_update = False\<rparr>)"
    using upsert_Inr(1)[OF up] by (simp add: t1 b_def)
qed

lemma insert_app_present:
  "\<forall>a \<in> set as. (i, a) \<in> set rows \<Longrightarrow> foldl (insert_app i) rows as = rows"
  by (induction as arbitrary: rows) (auto simp: insert_app_def)

lemma set_insert_apps:
  "set (foldl (insert_app i) rows as) = set rows \<union> {(i, a) | a. a \<in> set as}"
  by (induction as arbitrary: rows) (auto simp: insert_app_def)

lemma insert_apps_idem:
  "foldl (insert_app i) (foldl (insert_app i) rows as) as = foldl (insert_app i) rows as"
  by (rule insert_app_present) (auto simp: set_insert_apps)





text \<open>With a page in the response, \<^verbatim>\<open>fetch\<close> returns when no statement fails.\<close>

lemma fetch_returns:
  assumes "html storeResponse = Some page"
  shows "\<exists>d'. fetch no_failure now bundleId storeResponse d = (Inr (), d')"
  using assms
  by (simp add: fetch_def upsert_def Pool_query_def Pool_beginTransaction_def Pool_commit_def
      Let_def no_failure_def)

text \<open>
  C5. Two calls of \<^verbatim>\<open>fetch\<close> in a row for the same identifier with the same response,
  both returning: after the second call the name table and the application table are
  what they were after the first; the primary row of the identifier has, after each
  call, \<^verbatim>\<open>queued_for_update\<close> false and the same \<^verbatim>\<open>removed\<close>; its \<^verbatim>\<open>last_update\<close> is
  the time of the first call, then of the second, and no other row of the primary table
  changes.
\<close>

theorem fetch_idempotent:
  assumes "fetch fails now1 bundleId storeResponse d = (Inr u1, d1)"
    and "fetch fails now2 bundleId storeResponse d1 = (Inr u2, d2)"
  shows "games_bundle_name (tables d2) = games_bundle_name (tables d1)
    \<and> games_bundle_app (tables d2) = games_bundle_app (tables d1)
    \<and> (\<exists>r. games_bundle (tables d1) bundleId = Some r \<and> b_last_update r = now1 \<and>
            \<not> b_queued_for_update r \<and>
            games_bundle (tables d2) =
              (games_bundle (tables d1))(bundleId \<mapsto> r\<lparr>b_last_update := now2\<rparr>))"
proof -
  note f1 = fetch_Inr[OF assms(1)] and f2 = fetch_Inr[OF assms(2)]
  have "games_bundle_name (tables d2) = games_bundle_name (tables d1)"
    unfolding f2(3) unfolding f1(3) by (auto split: option.splits)
  moreover have "games_bundle_app (tables d2) = games_bundle_app (tables d1)"
    unfolding f2(4) unfolding f1(4) by (simp add: insert_apps_idem)
  moreover have "\<exists>r. games_bundle (tables d1) bundleId = Some r \<and> b_last_update r = now1 \<and>
            \<not> b_queued_for_update r \<and>
            games_bundle (tables d2) =
              (games_bundle (tables d1))(bundleId \<mapsto> r\<lparr>b_last_update := now2\<rparr>)"
    unfolding f2(2) unfolding f1(2) by simp
  ultimately show ?thesis by blast
qed

text \<open>Bundle 42, unknown to the store before, fetched at second 5000 and at second 9000.\<close>

theorem fetch_idempotent_witness:
  "fetch no_failure 5000 42 page_ok shop = (Inr (), snd (fetch no_failure 5000 42 page_ok shop))
   \<and> fetch no_failure 9000 42 page_ok (snd (fetch no_failure 5000 42 page_ok shop)) =
       (Inr (), snd (fetch no_failure 9000 42 page_ok (snd (fetch no_failure 5000 42 page_ok shop))))
   \<and> games_bundle_app (tables (snd (fetch no_failure 5000 42 page_ok shop))) =
       [(1, 10), (1, 20), (42, 10), (42, 20)]
   \<and> games_bundle_app (tables (snd (fetch no_failure 9000 42 page_ok
        (snd (fetch no_failure 5000 42 page_ok shop))))) =
       [(1, 10), (1, 20), (42, 10), (42, 20)]
   \<and> games_bundle (tables (snd (fetch no_failure 5000 42 page_ok shop))) 42 =
       Some \<lparr>b_removed = False, b_last_update = 5000, b_queued_for_update = False\<rparr>
   \<and> games_bundle (tables (snd (fetch no_failure 9000 42 page_ok
        (snd (fetch no_failure 5000 42 page_ok shop))))) 42 =
       Some \<lparr>b_removed = False, b_last_update = 9000, b_queued_for_update = False\<rparr>"
proof -
  let ?d1 = "snd (fetch no_failure 5000 42 page_ok shop)"
  let ?d2 = "snd (fetch no_failure 9000 42 page_ok ?d1)"
  have h1: "fetch no_failure 5000 42 page_ok shop = (Inr (), ?d1)"
    by (simp add: fetch_defs page_ok_def prod_eq_iff)
  have h2: "fetch no_failure 9000 42 page_ok ?d1 = (Inr (), ?d2)"
    by (simp add: fetch_defs page_ok_def prod_eq_iff)
  have a1: "games_bundle_app (tables ?d1) = [(1, 10), (1, 20), (42, 10), (42, 20)]"
    and b1: "games_bundle (tables ?d1) 42 =
       Some \<lparr>b_removed = False, b_last_update = 5000, b_queued_for_update = False\<rparr>"
    by (simp_all add: fetch_defs page_ok_def shop_def)
  from fetch_idempotent[OF h1 h2] have
    a2: "games_bundle_app (tables ?d2) = games_bundle_app (tables ?d1)"
    and "\<exists>r. games_bundle (tables ?d1) 42 = Some r \<and>
            games_bundle (tables ?d2) =
              (games_bundle (tables ?d1))(42 \<mapsto> r\<lparr>b_last_update := 9000\<rparr>)"
    by blast+
  with b1 have b2: "games_bundle (tables ?d2) 42 =
       Some \<lparr>b_removed = False, b_last_update = 9000, b_queued_for_update = False\<rparr>"
    by auto
  from h1 h2 a1 a2 b1 b2 show ?thesis by (intro conjI) simp_all
qed

text \<open>
  Bundle 42 is stored with a name and two applications, and its page now redirects to
  the front page of the store. \<^verbatim>\<open>fetch\<close> stores the primary row as removed and not
  queued; the name row and the two application rows are still there.
\<close>

theorem fetch_stale_counterexample:
  "\<not> test_unanchored (url_regex 42) (url page_redirected)
   \<and> fst (fetch no_failure 5000 42 page_redirected stale) = Inr ()
   \<and> games_bundle (tables (snd (fetch no_failure 5000 42 page_redirected stale))) 42 =
       Some \<lparr>b_removed = True, b_last_update = 5000, b_queued_for_update = False\<rparr>
   \<and> games_bundle_name (tables (snd (fetch no_failure 5000 42 page_redirected stale))) 42 =
       Some ''Old Bundle''
   \<and> games_bundle_app (tables (snd (fetch no_failure 5000 42 page_redirected stale))) =
       [(42, 7), (42, 8)]"
  by (simp add: fetch_defs page_redirected_def stale_def)

text \<open>
  C6, amended. When the final URL does not match the page pattern of the identifier and
  \<^verbatim>\<open>fetch\<close> returns, the primary row of the identifier is \<^verbatim>\<open>removed\<close> true,
  \<^verbatim>\<open>last_update\<close> now, \<^verbatim>\<open>queued_for_update\<close> false, every other primary row is as before,
  and \<^verbatim>\<open>fetch\<close> has inserted no name row and no application row: the name table and the
  application table are as before the call, rows of the identifier included.
\<close>

theorem fetch_redirected:
  assumes "fetch fails now bundleId storeResponse d = (Inr u, d')"
    and "\<not> test_unanchored (url_regex bundleId) (url storeResponse)"
  shows "games_bundle (tables d') =
           (games_bundle (tables d))(bundleId \<mapsto>
              \<lparr>b_removed = True, b_last_update = now, b_queued_for_update = False\<rparr>)
    \<and> games_bundle_name (tables d') = games_bundle_name (tables d)
    \<and> games_bundle_app (tables d') = games_bundle_app (tables d)"
  using fetch_Inr(2,3,4)[OF assms(1)] assms(2) by simp

text \<open>The stored bundle 42 against the redirect.\<close>

theorem fetch_redirected_witness:
  "fetch no_failure 5000 42 page_redirected stale =
     (Inr (), snd (fetch no_failure 5000 42 page_redirected stale))
   \<and> \<not> test_unanchored (url_regex 42) (url page_redirected)
   \<and> games_bundle (tables (snd (fetch no_failure 5000 42 page_redirected stale))) 42 =
       Some \<lparr>b_removed = True, b_last_update = 5000, b_queued_for_update = False\<rparr>
   \<and> games_bundle_app (tables (snd (fetch no_failure 5000 42 page_redirected stale))) =
       [(42, 7), (42, 8)]"
proof -
  let ?d' = "snd (fetch no_failure 5000 42 page_redirected stale)"
  have h1: "fetch no_failure 5000 42 page_redirected stale = (Inr (), ?d')"
    by (simp add: fetch_defs page_redirected_def prod_eq_iff)
  have h2: "\<not> test_unanchored (url_regex 42) (url page_redirected)"
    by (simp add: fetch_defs page_redirected_def)
  from fetch_redirected[OF h1 h2] have
    "games_bundle (tables ?d') 42 =
       Some \<lparr>b_removed = True, b_last_update = 5000, b_queued_for_update = False\<rparr>"
    and "games_bundle_app (tables ?d') = games_bundle_app (tables stale)"
    by simp_all
  then have "games_bundle (tables ?d') 42 =
       Some \<lparr>b_removed = True, b_last_update = 5000, b_queued_for_update = False\<rparr>"
    and "games_bundle_app (tables ?d') = [(42, 7), (42, 8)]"
    by (simp_all add: stale_def)
  with h1 h2 show ?thesis by (intro conjI) simp_all
qed



end
